theory Spec2Isabelle
  imports Main
begin

text \<open>
  A shallow embedding of the style resolvers (Input and Button), the disclosure hook, the
  tooltip's delayed show and hide, and the avatar's initials, followed by the properties
  proved about them. Every definition carries the place of the source it is taken from.
\<close>

section \<open>Avatar: initials of a name\<close>

text \<open>
  \<^verbatim>\<open>packages/Avatar/src/Avatar.tsx\<close>, lines 76-84. A string is the list of its UTF-16 code
  units, one \<^typ>\<open>char\<close> each. Reading a member of \<^verbatim>\<open>undefined\<close> throws a
  \<^verbatim>\<open>TypeError\<close>, which is the only way this function could fail.
\<close>

datatype js_error = TypeError

text \<open>\<^verbatim>\<open>String.prototype.split\<close> with a separator of one code unit.\<close>

fun split :: "char \<Rightarrow> string \<Rightarrow> string list" where
  "split c [] = [[]]"
| "split c (x # xs) =
     (if x = c then [] # split c xs
      else (case split c xs of [] \<Rightarrow> [[x]] | w # ws \<Rightarrow> (x # w) # ws))"

text \<open>Array destructuring: a position past the end reads \<^verbatim>\<open>undefined\<close>.\<close>

fun at_index :: "'a list \<Rightarrow> nat \<Rightarrow> 'a option" where
  "at_index [] i = None"
| "at_index (x # xs) 0 = Some x"
| "at_index (x # xs) (Suc i) = at_index xs i"

text \<open>\<^verbatim>\<open>charAt(i)\<close>: the code unit at \<open>i\<close> as a string, empty past the end.\<close>

definition charAt :: "string \<Rightarrow> nat \<Rightarrow> string" where
  "charAt s i = take 1 (drop i s)"

text \<open>Truthiness of a value that is a string or \<^verbatim>\<open>undefined\<close>.\<close>

fun truthy_str :: "string option \<Rightarrow> bool" where
  "truthy_str None = False"
| "truthy_str (Some s) = (s \<noteq> [])"

definition getInitials :: "string \<Rightarrow> js_error + string" where
  "getInitials name =
     (let parts = split CHR '' '' name;
          firstName = at_index parts 0;
          lastName = at_index parts 1
      in if truthy_str firstName \<and> truthy_str lastName
         then (case (firstName, lastName) of
                 (Some f, Some l) \<Rightarrow> Inr (charAt f 0 @ charAt l 0)
               | _ \<Rightarrow> Inl TypeError)
         else (case firstName of
                 None \<Rightarrow> Inl TypeError
               | Some f \<Rightarrow> Inr (charAt f 0)))"

text \<open>
  The words of the property, stated without \<^const>\<open>split\<close>: the text before the first
  space, and the text between the first space and the second.
\<close>

definition first_word :: "string \<Rightarrow> string" where
  "first_word name = takeWhile (\<lambda>c. c \<noteq> CHR '' '') name"

definition second_word :: "string \<Rightarrow> string" where
  "second_word name =
     takeWhile (\<lambda>c. c \<noteq> CHR '' '') (drop 1 (dropWhile (\<lambda>c. c \<noteq> CHR '' '') name))"

section \<open>JavaScript values, objects and the theme lookup\<close>

text \<open>
  The values that style objects and themes hold. A number is kept as the decimal text
  JavaScript prints for it (\<^verbatim>\<open>4\<close> is \<open>Num ''4''\<close>, \<^verbatim>\<open>0.5\<close> is \<open>Num ''0.5''\<close>): the code
  modelled here writes number literals and puts them into strings, and never computes
  with them. An object is the list of its own properties in insertion order. \<open>Native t\<close>
  is a function or an object built into the host (\<^verbatim>\<open>Object\<close>, \<^verbatim>\<open>Object.prototype.toString\<close>),
  of which only the text \<open>t\<close> that the host prints for it is observed.
\<close>

datatype js = Undefined | Null | Str string | Num string | Obj "(string \<times> js) list"
  | Native string

type_synonym style = "(string \<times> js) list"

fun truthy :: "js \<Rightarrow> bool" where
  "truthy Undefined = False"
| "truthy Null = False"
| "truthy (Str s) = (s \<noteq> [])"
| "truthy (Num n) = (n \<noteq> ''0'')"
| "truthy (Obj kvs) = True"
| "truthy (Native t) = True"

text \<open>String conversion, as a template literal applies it.\<close>

fun to_string :: "js \<Rightarrow> string" where
  "to_string Undefined = ''undefined''"
| "to_string Null = ''null''"
| "to_string (Str s) = s"
| "to_string (Num n) = n"
| "to_string (Obj kvs) = ''[object Object]''"
| "to_string (Native t) = t"

text \<open>
  The host. \<^verbatim>\<open>v[k]\<close> looks for an own property \<open>k\<close> of \<open>v\<close> first and then along the
  prototype chain of \<open>v\<close>; \<open>H v k\<close> is what the chain gives, \<^verbatim>\<open>undefined\<close> when it has no
  member \<open>k\<close>. Which members there are depends on the host and its version, so the host
  is an argument of every function that reads a member by a computed key. For a native
  value, whose own properties are not listed here, \<open>H\<close> gives every member.
\<close>

type_synonym host = "js \<Rightarrow> string \<Rightarrow> js"

text \<open>\<^verbatim>\<open>obj[k]\<close> on an object: its own property, or else the member it inherits.\<close>

definition member :: "host \<Rightarrow> style \<Rightarrow> string \<Rightarrow> js" where
  "member H obj k = (case map_of obj k of None \<Rightarrow> H (Obj obj) k | Some v \<Rightarrow> v)"

text \<open>The decimal numeral of an array index or of a length.\<close>

fun digits :: "nat \<Rightarrow> string" where
  "digits n =
     (if n < 10 then [''0123456789'' ! n]
      else digits (n div 10) @ [''0123456789'' ! (n mod 10)])"

text \<open>
  \<^verbatim>\<open>v[k]\<close> on any value. A string has its length and, under the numeral of each index,
  the code unit there; everything else comes from the host. Reading a member of
  \<^verbatim>\<open>undefined\<close> or \<^verbatim>\<open>null\<close> throws in JavaScript: no call does so, \<^verbatim>\<open>get\<close> below asks for
  truthiness first and the other reads are on objects, and the last two equations are
  there for totality only.
\<close>

fun read :: "host \<Rightarrow> js \<Rightarrow> string \<Rightarrow> js" where
  "read H (Obj kvs) k = member H kvs k"
| "read H (Str s) k =
     (if k = ''length'' then Num (digits (length s))
      else (case find (\<lambda>i. digits i = k) [0..<length s] of
              Some i \<Rightarrow> Str [s ! i]
            | None \<Rightarrow> H (Str s) k))"
| "read H (Num n) k = H (Num n) k"
| "read H (Native t) k = H (Native t) k"
| "read H Undefined k = Undefined"
| "read H Null k = Undefined"

text \<open>
  Object spread \<^verbatim>\<open>{...a, ...b}\<close>: a property of \<open>a\<close> keeps its place and takes the value
  \<open>b\<close> gives it, if any; the properties only \<open>b\<close> has follow in the order of \<open>b\<close>. A
  property whose value is \<^verbatim>\<open>undefined\<close> is copied like any other.
\<close>

definition spread :: "style \<Rightarrow> style \<Rightarrow> style" where
  "spread a b =
     map (\<lambda>(k, v). (k, case map_of b k of None \<Rightarrow> v | Some w \<Rightarrow> w)) a
     @ filter (\<lambda>(k, v). map_of a k = None) b"

text \<open>
  The own enumerable properties that \<^verbatim>\<open>...v\<close> copies out of any value: those of an
  object, the code units of a string under their indices, none for \<^verbatim>\<open>undefined\<close>,
  \<^verbatim>\<open>null\<close> and numbers, and none for a native value (the functions and prototype
  objects of the host have no enumerable property of their own).
\<close>

fun own_properties :: "js \<Rightarrow> style" where
  "own_properties (Obj kvs) = kvs"
| "own_properties (Str s) = map (\<lambda>i. (digits i, Str [s ! i])) [0..<length s]"
| "own_properties v = []"

text \<open>
  \<^verbatim>\<open>get(obj, key, def)\<close> of the library styled-system, as the comment at
  \<^verbatim>\<open>packages/chakra-ui/src/Input/styles.ts\<close>, lines 30-35, describes it ("object or array
  to read from, key to get, fallback value") and as the library implements it:
  \<^verbatim>\<open>
  key = key && key.split ? key.split('.') : [key]
  for (p = 0; p < key.length; p++) { obj = obj ? obj[key[p]] : undef }
  return obj === undef ? def : obj
  \<close>
  The key is a string here; for the empty string both branches of the first line give
  the one-element list of the empty string.
\<close>

definition get :: "host \<Rightarrow> js \<Rightarrow> string \<Rightarrow> js \<Rightarrow> js" where
  "get H obj key def =
     (let r = foldl (\<lambda>obj k. if truthy obj then read H obj k else Undefined) obj
                (split CHR ''.'' key)
      in if r = Undefined then def else r)"

text \<open>
  The theme as the specification describes it, a table from dotted token paths to values:
  the value at a path is found by descending one table per segment, through own
  properties only. This is the reading against which \<^const>\<open>get\<close> is compared; it is not
  taken from the code.
\<close>

fun at_path :: "js \<Rightarrow> string list \<Rightarrow> js option" where
  "at_path v [] = Some v"
| "at_path (Obj kvs) (k # ks) =
     (case map_of kvs k of None \<Rightarrow> None | Some v \<Rightarrow> at_path v ks)"
| "at_path v (k # ks) = None"

definition token :: "js \<Rightarrow> string \<Rightarrow> js option" where
  "token table path =
     (case at_path table (split CHR ''.'' path) of
        None \<Rightarrow> None
      | Some Undefined \<Rightarrow> None
      | Some v \<Rightarrow> Some v)"

text \<open>
  The host of the examples, described for plain objects only: an object inherits the
  members of \<^verbatim>\<open>Object.prototype\<close>, each a function but \<^verbatim>\<open>__proto__\<close>, which is the
  prototype itself; the texts are those V8 prints. What strings, numbers and native
  values inherit is left out of it, and no example reads a member of one of those
  through the host.
\<close>

definition native_function :: "string \<Rightarrow> js" where
  "native_function name = Native (''function '' @ name @ ''() { [native code] }'')"

definition objectPrototype :: style where
  "objectPrototype =
     [(''constructor'', native_function ''Object''),
      (''__defineGetter__'', native_function ''__defineGetter__''),
      (''__defineSetter__'', native_function ''__defineSetter__''),
      (''hasOwnProperty'', native_function ''hasOwnProperty''),
      (''__lookupGetter__'', native_function ''__lookupGetter__''),
      (''__lookupSetter__'', native_function ''__lookupSetter__''),
      (''isPrototypeOf'', native_function ''isPrototypeOf''),
      (''propertyIsEnumerable'', native_function ''propertyIsEnumerable''),
      (''toString'', native_function ''toString''),
      (''valueOf'', native_function ''valueOf''),
      (''__proto__'', Native ''[object Object]''),
      (''toLocaleString'', native_function ''toLocaleString'')]"

definition plainObjects :: host where
  "plainObjects v k =
     (case v of
        Obj kvs \<Rightarrow> (case map_of objectPrototype k of None \<Rightarrow> Undefined | Some f \<Rightarrow> f)
      | _ \<Rightarrow> Undefined)"

text \<open>
  A property of hosts: what a plain object inherits has no enumerable property of its
  own. It holds of the functions and the prototype object that \<^verbatim>\<open>Object.prototype\<close>
  provides.
\<close>

definition prototype_unenumerable :: "host \<Rightarrow> bool" where
  "prototype_unenumerable H = (\<forall>kvs k. own_properties (H (Obj kvs) k) = [])"

text \<open>
  The colour mode of the application. A function whose result is \<open>'a logged\<close> returns what
  it wrote to the console, one entry per call of \<^verbatim>\<open>console.warn\<close>, beside its value.
\<close>

datatype color_mode = light | dark

type_synonym 'a logged = "string list \<times> 'a"

section \<open>The Button style resolver\<close>

text \<open>
  \<^verbatim>\<open>unnamed/part_001\<close>, lines 1-206: the Button of the \<^verbatim>\<open>@emotion/styled\<close> code base. The
  props that the style functions read are \<^verbatim>\<open>theme\<close> (put there by the theme provider),
  \<^verbatim>\<open>mode\<close>, \<^verbatim>\<open>isFullWidth\<close>, \<^verbatim>\<open>buttonVariant\<close>, \<^verbatim>\<open>buttonSize\<close> and \<^verbatim>\<open>buttonColor\<close>.
\<close>

record ButtonProps =
  theme :: style
  mode :: color_mode
  isFullWidth :: bool
  buttonVariant :: string
  buttonSize :: string
  buttonColor :: string

text \<open>
  \<^verbatim>\<open>css(...)\<close> of the library emotion turns an object into the declarations of a style
  sheet, in the order of its properties: a property whose value is \<^verbatim>\<open>null\<close> or
  \<^verbatim>\<open>undefined\<close> is left out, and an object value is the block of a nested selector, written
  the same way. The declarations stay a list of pairs here.
\<close>

definition processable :: "js \<Rightarrow> bool" where
  "processable v = (v \<noteq> Null \<and> v \<noteq> Undefined)"

fun serialize :: "js \<Rightarrow> js" where
  "serialize (Obj kvs) =
     Obj (map (\<lambda>kv. (fst kv, serialize (snd kv))) (filter (\<lambda>kv. processable (snd kv)) kvs))"
| "serialize v = v"

definition css :: "style \<Rightarrow> style" where
  "css obj = own_properties (serialize (Obj obj))"

text \<open>
  \<^verbatim>\<open>themeGet(path)(props)\<close> of the library @styled-system/theme-get:
  \<^verbatim>\<open>get(props.theme, path, null)\<close>.
\<close>

definition themeGet :: "host \<Rightarrow> string \<Rightarrow> ButtonProps \<Rightarrow> js" where
  "themeGet H path p = get H (Obj (theme p)) path Null"

definition baseStyle :: style where
  "baseStyle =
     css [(''display'', Str ''inline-flex''),
          (''alignItems'', Str ''center''),
          (''justifyContent'', Str ''center''),
          (''transition'', Str ''all 250ms''),
          (''userSelect'', Str ''none''),
          (''position'', Str ''relative''),
          (''whiteSpace'', Str ''nowrap''),
          (''verticalAlign'', Str ''middle''),
          (''lineHeight'', Str ''1.2'')]"

definition unstyledStyleButton :: style where
  "unstyledStyleButton =
     css [(''userSelect'', Str ''inherit''),
          (''background'', Str ''none''),
          (''border'', Num ''0''),
          (''color'', Str ''inherit''),
          (''display'', Str ''inline''),
          (''font'', Str ''inherit''),
          (''lineHeight'', Str ''inherit''),
          (''margin'', Num ''0''),
          (''padding'', Num ''0''),
          (''textAlign'', Str ''inherit'')]"

definition hoverSelector :: string where
  \<open>hoverSelector = ''&:not([aria-disabled="true"]):hover''\<close>

definition activeSelector :: string where
  \<open>activeSelector = ''&:not([aria-disabled="true"]):active''\<close>

definition disabledSelector :: string where
  \<open>disabledSelector = ''&[aria-disabled="true"]''\<close>

definition focusSelector :: string where
  "focusSelector = ''&:focus''"

definition themedSolidColors :: "host \<Rightarrow> ButtonProps \<Rightarrow> color_mode \<Rightarrow> style" where
  "themedSolidColors H p m =
     (case m of
        light \<Rightarrow>
          [(''color'', Str ''inherit''),
           (''backgroundColor'', themeGet H ''colors.gray.100'' p),
           (hoverSelector, Obj [(''backgroundColor'', themeGet H ''colors.gray.200'' p)]),
           (activeSelector, Obj [(''backgroundColor'', themeGet H ''colors.gray.300'' p)])]
      | dark \<Rightarrow>
          [(''color'', themeGet H ''colors.alpha.900'' p),
           (''backgroundColor'', themeGet H ''colors.alpha.200'' p),
           (hoverSelector, Obj [(''backgroundColor'', themeGet H ''colors.alpha.300'' p)]),
           (activeSelector, Obj [(''backgroundColor'', themeGet H ''colors.alpha.400'' p)])])"

definition solidColorStyle :: "host \<Rightarrow> ButtonProps \<Rightarrow> style" where
  "solidColorStyle H p =
     css (spread
       [(''color'', Str ''#fff''),
        (''backgroundColor'', themeGet H (''colors.'' @ buttonColor p @ ''.500'') p),
        (hoverSelector,
           Obj [(''backgroundColor'', themeGet H (''colors.'' @ buttonColor p @ ''.600'') p)]),
        (activeSelector,
           Obj [(''backgroundColor'', themeGet H (''colors.'' @ buttonColor p @ ''.700'') p)])]
       (if buttonColor p = ''gray'' then themedSolidColors H p (mode p) else []))"

definition themedGhostButton :: "host \<Rightarrow> ButtonProps \<Rightarrow> color_mode \<Rightarrow> style" where
  "themedGhostButton H p m =
     (case m of
        light \<Rightarrow>
          [(''color'', Str ''inherit''),
           (hoverSelector, Obj [(''backgroundColor'', themeGet H ''colors.gray.100'' p)]),
           (activeSelector, Obj [(''backgroundColor'', themeGet H ''colors.gray.200'' p)])]
      | dark \<Rightarrow>
          [(''color'', themeGet H ''colors.alpha.900'' p),
           (hoverSelector, Obj [(''backgroundColor'', themeGet H ''colors.alpha.200'' p)]),
           (activeSelector, Obj [(''backgroundColor'', themeGet H ''colors.alpha.300'' p)])])"

definition ghostColorStyle :: "host \<Rightarrow> ButtonProps \<Rightarrow> style" where
  "ghostColorStyle H p =
     css (spread
       [(''color'', themeGet H (''colors.'' @ buttonColor p @ ''.500'') p),
        (''backgroundColor'', Str ''transparent''),
        (hoverSelector,
           Obj [(''backgroundColor'', themeGet H (''colors.'' @ buttonColor p @ ''.50'') p)]),
        (activeSelector,
           Obj [(''backgroundColor'', themeGet H (''colors.'' @ buttonColor p @ ''.100'') p)])]
       (if buttonColor p = ''gray'' then themedGhostButton H p (mode p) else []))"

text \<open>\<^verbatim>\<open>css(a, b)\<close>: the declarations of \<open>a\<close>, then those of \<open>b\<close>.\<close>

definition outlineColorStyle :: "host \<Rightarrow> ButtonProps \<Rightarrow> style" where
  "outlineColorStyle H p =
     ghostColorStyle H p @
     css (spread
       [(''borderWidth'', Num ''1''),
        (''borderColor'', themeGet H (''colors.'' @ buttonColor p @ ''.200'') p)]
       (if buttonColor p = ''gray''
        then [(''borderColor'',
                 if mode p = dark then themeGet H ''colors.alpha.400'' p
                 else themeGet H (''colors.'' @ buttonColor p @ ''.200'') p)]
        else []))"

definition linkStyle :: "host \<Rightarrow> ButtonProps \<Rightarrow> style" where
  "linkStyle H p =
     css [(''padding'', Num ''0''),
          (''height'', Str ''auto''),
          (''lineHeight'', Str ''normal''),
          (''color'', themeGet H (''colors.'' @ buttonColor p @ ''.600'') p),
          (hoverSelector, Obj [(''textDecoration'', Str ''underline'')]),
          (activeSelector,
             Obj [(''color'', themeGet H (''colors.'' @ buttonColor p @ ''.700'') p)])]"

text \<open>The \<^verbatim>\<open>switch\<close> of lines 155-172; its default branch calls \<^verbatim>\<open>console.warn\<close> once.\<close>

definition variantStyle :: "host \<Rightarrow> ButtonProps \<Rightarrow> style logged" where
  "variantStyle H p =
     (if buttonVariant p = ''solid'' then ([], solidColorStyle H p)
      else if buttonVariant p = ''outline'' then ([], outlineColorStyle H p)
      else if buttonVariant p = ''ghost'' then ([], ghostColorStyle H p)
      else if buttonVariant p = ''link'' then ([], linkStyle H p)
      else if buttonVariant p = ''unstyled'' then ([], unstyledStyleButton)
      else ([''passed variant prop is invalid ''], []))"

definition sizeStyle :: "host \<Rightarrow> ButtonProps \<Rightarrow> style" where
  "sizeStyle H p =
     css (spread
       (own_properties (themeGet H (''sizes.button.'' @ buttonSize p) p))
       (if isFullWidth p then [(''width'', Str ''100%'')] else []))"

definition disabledStyle :: style where
  "disabledStyle =
     css [(disabledSelector,
             Obj [(''opacity'', Num ''0.5''),
                  (''cursor'', Str ''not-allowed''),
                  (''boxShadow'', Str ''none'')])]"

definition focusStyle :: "host \<Rightarrow> ButtonProps \<Rightarrow> style" where
  "focusStyle H p =
     css [(focusSelector, Obj [(''boxShadow'', themeGet H ''shadows.focusring'' p)])]"

text \<open>
  The template of \<^verbatim>\<open>styled(Box)\<close>, lines 200-206: the declarations of the five fragments
  one after the other. A function among them is called with the props, and what it
  returns is written as \<^const>\<open>css\<close> writes it.
\<close>

definition StyledButton :: "host \<Rightarrow> ButtonProps \<Rightarrow> style logged" where
  "StyledButton H p =
     (let foc = focusStyle H p;
          sz = sizeStyle H p;
          (console, var) = variantStyle H p
      in (console, baseStyle @ disabledStyle @ css foc @ css sz @ css var))"

text \<open>
  What the browser applies for a property of a style sheet: its last declaration. The
  block of a nested selector is a rule of its own and is looked up whole, under its
  selector.
\<close>

definition applied :: "style \<Rightarrow> string \<Rightarrow> js option" where
  "applied decls k = map_of (rev decls) k"

section \<open>The Input style resolver\<close>

text \<open>
  \<^verbatim>\<open>packages/chakra-ui/src/Input/styles.ts\<close>, lines 1-225. The props are one record with
  the fields of \<^verbatim>\<open>StyleProps\<close>, \<^verbatim>\<open>VariantProps\<close> and \<^verbatim>\<open>InputStyleProps\<close>. The type
  says \<^verbatim>\<open>size: InputSizes\<close>, but \<^verbatim>\<open>useInputStyle\<close> takes \<^verbatim>\<open>props: any\<close>, so the size is
  any string or unset (\<open>None\<close>); an unset \<^verbatim>\<open>isFullWidth\<close> is \<open>False\<close>.
\<close>

record InputStyleProps =
  theme :: style
  colorMode :: color_mode
  focusBorderColor :: string
  errorBorderColor :: string
  variant :: string
  isFullWidth :: bool
  size :: "string option"

definition readOnly :: style where
  "readOnly =
     [(''_readOnly'', Obj [(''bg'', Str ''transparent''),
                          (''boxShadow'', Str ''none !important''),
                          (''userSelect'', Str ''all'')])]"

definition outlinedStyle :: "host \<Rightarrow> InputStyleProps \<Rightarrow> style" where
  "outlinedStyle H p =
     (let bg = (\<lambda>m. case m of light \<Rightarrow> ''white'' | dark \<Rightarrow> ''whiteAlpha.100'');
          borderColor = (\<lambda>m. case m of light \<Rightarrow> ''inherit'' | dark \<Rightarrow> ''whiteAlpha.50'');
          hoverColor = (\<lambda>m. case m of light \<Rightarrow> ''gray.300'' | dark \<Rightarrow> ''whiteAlpha.200'');
          focusColor = get H (member H (theme p) ''colors'') (focusBorderColor p)
                         (Str (focusBorderColor p));
          errorColor = get H (member H (theme p) ''colors'') (errorBorderColor p)
                         (Str (errorBorderColor p))
      in spread readOnly
           [(''border'', Str ''1px''),
            (''borderColor'', Str (borderColor (colorMode p))),
            (''bg'', Str (bg (colorMode p))),
            (''_hover'', Obj [(''borderColor'', Str (hoverColor (colorMode p)))]),
            (''_disabled'', Obj [(''opacity'', Str ''0.4''), (''cursor'', Str ''not-allowed'')]),
            (''_focus'', Obj [(''borderColor'', focusColor),
                             (''boxShadow'', Str (''0 0 0 1px '' @ to_string focusColor))]),
            (''_invalid'', Obj [(''borderColor'', errorColor),
                               (''boxShadow'', Str (''0 0 0 1px '' @ to_string errorColor))])])"

definition filledStyle :: "host \<Rightarrow> InputStyleProps \<Rightarrow> style" where
  "filledStyle H p =
     (let bg = (\<lambda>m. case m of light \<Rightarrow> ''gray.100'' | dark \<Rightarrow> ''whiteAlpha.50'');
          hoverColor = (\<lambda>m. case m of light \<Rightarrow> ''gray.200'' | dark \<Rightarrow> ''whiteAlpha.100'');
          focusColor = get H (member H (theme p) ''colors'') (focusBorderColor p)
                         (Str (focusBorderColor p));
          errorColor = get H (member H (theme p) ''colors'') (errorBorderColor p)
                         (Str (errorBorderColor p))
      in spread readOnly
           [(''border'', Str ''2px''),
            (''borderColor'', Str ''transparent''),
            (''bg'', Str (bg (colorMode p))),
            (''_hover'', Obj [(''bg'', Str (hoverColor (colorMode p)))]),
            (''_disabled'', Obj [(''opacity'', Str ''0.4''), (''cursor'', Str ''not-allowed'')]),
            (''_focus'', Obj [(''bg'', Str ''transparent''), (''borderColor'', focusColor)]),
            (''_invalid'', Obj [(''borderColor'', errorColor)])])"

definition flushedStyle :: "host \<Rightarrow> InputStyleProps \<Rightarrow> style" where
  "flushedStyle H p =
     (let focusColor = get H (member H (theme p) ''colors'') (focusBorderColor p)
                         (Str (focusBorderColor p));
          errorColor = get H (member H (theme p) ''colors'') (errorBorderColor p)
                         (Str (errorBorderColor p))
      in spread readOnly
           [(''borderBottom'', Str ''2px''),
            (''borderColor'', Str ''inherit''),
            (''rounded'', Num ''0''),
            (''px'', Undefined),
            (''bg'', Str ''transparent''),
            (''_focus'', Obj [(''borderColor'', focusColor)]),
            (''_invalid'', Obj [(''borderColor'', errorColor)])])"

definition unstyledStyle :: style where
  "unstyledStyle = [(''bg'', Str ''transparent''), (''px'', Undefined), (''height'', Undefined)]"

text \<open>The \<^verbatim>\<open>switch\<close> of lines 158-171; no branch writes to the console.\<close>

definition variantProps :: "host \<Rightarrow> InputStyleProps \<Rightarrow> style logged" where
  "variantProps H p =
     (if variant p = ''flushed'' then ([], flushedStyle H p)
      else if variant p = ''unstyled'' then ([], unstyledStyle)
      else if variant p = ''filled'' then ([], filledStyle H p)
      else if variant p = ''outline'' then ([], outlinedStyle H p)
      else ([], []))"

definition baseProps :: style where
  "baseProps =
     [(''display'', Str ''flex''),
      (''alignItems'', Str ''center''),
      (''position'', Str ''relative''),
      (''transition'', Str ''all 0.2s''),
      (''outline'', Str ''none'')]"

definition inputSizes :: style where
  "inputSizes =
     [(''lg'', Obj [(''fontSize'', Str ''lg''), (''px'', Num ''4''), (''height'', Str ''12''),
                   (''lineHeight'', Str ''3rem''), (''rounded'', Str ''md'')]),
      (''md'', Obj [(''fontSize'', Str ''md''), (''px'', Num ''4''), (''height'', Str ''10''),
                   (''lineHeight'', Str ''2.5rem''), (''rounded'', Str ''md'')]),
      (''sm'', Obj [(''fontSize'', Str ''sm''), (''px'', Num ''3''), (''height'', Str ''8''),
                   (''lineHeight'', Str ''2rem''), (''rounded'', Str ''sm'')])]"

text \<open>
  \<^verbatim>\<open>inputSizes[props.size]\<close>: a property key is a string, and \<^verbatim>\<open>undefined\<close> as a key is
  the string \<^verbatim>\<open>"undefined"\<close>.
\<close>

definition sizeProps :: "host \<Rightarrow> InputStyleProps \<Rightarrow> js" where
  "sizeProps H p = member H inputSizes (case size p of None \<Rightarrow> ''undefined'' | Some s \<Rightarrow> s)"

text \<open>
  \<^verbatim>\<open>useTheme()\<close> and \<^verbatim>\<open>useColorMode()\<close> read the ambient context; their results are the
  first two arguments. The console output is that of the one call of \<^const>\<open>variantProps\<close>.
\<close>

definition useInputStyle :: "host \<Rightarrow> style \<Rightarrow> color_mode \<Rightarrow> InputStyleProps \<Rightarrow> style logged" where
  "useInputStyle H ctxTheme ctxMode props =
     (let p = props\<lparr>theme := ctxTheme, colorMode := ctxMode\<rparr>;
          sz = sizeProps H p;
          (console, var) = variantProps H p
      in (console,
          spread
            (spread
               (spread [(''width'', if isFullWidth props then Str ''100%'' else Undefined)]
                  baseProps)
               (own_properties sz))
            var))"

text \<open>
  Props for examples: an Input of size \<^verbatim>\<open>md\<close> whose variant is \<^verbatim>\<open>"bogus"\<close>, one of size
  \<^verbatim>\<open>"xl"\<close> and one of the variant \<^verbatim>\<open>flushed\<close>; an outline Input whose focus colour is
  \<^verbatim>\<open>"constructor"\<close> and whose error colour is \<^verbatim>\<open>"white.length"\<close>, under a theme with two
  colours; a Button whose variant is \<^verbatim>\<open>"bogus"\<close> and a link Button, under a theme that
  gives the size \<^verbatim>\<open>md\<close> a height.
\<close>

definition bogusInput :: InputStyleProps where
  "bogusInput =
     \<lparr>theme = [], colorMode = light, focusBorderColor = ''blue.500'',
      errorBorderColor = ''red.500'', variant = ''bogus'', isFullWidth = False,
      size = Some ''md''\<rparr>"

definition xlInput :: InputStyleProps where
  "xlInput = bogusInput\<lparr>variant := ''outline'', size := Some ''xl''\<rparr>"

definition flushedInput :: InputStyleProps where
  "flushedInput = bogusInput\<lparr>variant := ''flushed''\<rparr>"

definition palette :: style where
  "palette = [(''gray'', Obj [(''200'', Str ''#E2E8F0'')]), (''white'', Str ''#fff'')]"

definition constructorInput :: InputStyleProps where
  "constructorInput =
     bogusInput\<lparr>theme := [(''colors'', Obj palette)], variant := ''outline'',
       focusBorderColor := ''constructor'', errorBorderColor := ''white.length''\<rparr>"

definition buttonTheme :: style where
  "buttonTheme =
     [(''sizes'', Obj [(''button'', Obj [(''md'', Obj [(''height'', Str ''40px''),
                                                     (''fontSize'', Str ''16px'')])])])]"

definition bogusButton :: ButtonProps where
  "bogusButton =
     \<lparr>ButtonProps.theme = buttonTheme, mode = light, ButtonProps.isFullWidth = False,
      buttonVariant = ''bogus'', buttonSize = ''md'', buttonColor = ''gray''\<rparr>"

definition linkButton :: ButtonProps where
  "linkButton = bogusButton\<lparr>buttonVariant := ''link''\<rparr>"

section \<open>The disclosure hook\<close>

text \<open>
  \<^verbatim>\<open>packages/hooks/src/useDisclosure.ts\<close>, lines 1-53. A callback prop is modelled by whether
  it is supplied; calling it appends an entry to \<open>calls\<close>, the record of what the hook
  did to its owner. \<^verbatim>\<open>isOpenProp\<close> is \<^verbatim>\<open>props.isOpen\<close>, \<open>None\<close> when it is \<^verbatim>\<open>undefined\<close>.
\<close>

datatype callback = OnOpen | OnClose

record DisclosureHookProps =
  isOpenProp :: "bool option"
  defaultIsOpen :: "bool option"
  onCloseProp :: bool
  onOpenProp :: bool

text \<open>The props \<^verbatim>\<open>{}\<close>: nothing supplied.\<close>

definition noProps :: DisclosureHookProps where
  "noProps = \<lparr>isOpenProp = None, defaultIsOpen = None, onCloseProp = False, onOpenProp = False\<rparr>"

text \<open>
  What React keeps for one instance of the hook between renders: the props of the latest
  render, the cell of \<^verbatim>\<open>React.useState\<close>, and the cells of the two helper hooks.
\<close>

record disclosure =
  props :: DisclosureHookProps
  isOpenState :: bool
  isControlledRef :: bool
  previousRef :: "bool option"
  calls :: "callback list"

text \<open>The first render: \<^verbatim>\<open>React.useState(props.defaultIsOpen || false)\<close>, line 15.\<close>

definition mount :: "DisclosureHookProps \<Rightarrow> disclosure" where
  "mount p =
     \<lparr>props = p,
      isOpenState = (case defaultIsOpen p of None \<Rightarrow> False | Some b \<Rightarrow> b),
      isControlledRef = (isOpenProp p \<noteq> None),
      previousRef = None,
      calls = []\<rparr>"

text \<open>
  Modelled from the spec: \<^verbatim>\<open>useControllableProp\<close> (\<^verbatim>\<open>./useControllable\<close>) is not among the
  sources. "\<^verbatim>\<open>isControlled\<close> is computed once, at construction, as was an external
  \<^verbatim>\<open>isOpen\<close> value supplied, not re-derived per call"; a controlled component is "one
  whose visible state is driven entirely by an externally supplied value, with internal
  state ignored". The flag computed at construction is \<open>isControlledRef\<close>, set by
  \<^const>\<open>mount\<close>; the function returns the pair of line 16.
\<close>

definition useControllableProp :: "bool \<Rightarrow> bool option \<Rightarrow> bool \<Rightarrow> bool \<times> bool option" where
  "useControllableProp ref prop state = (ref, if ref then prop else Some state)"

text \<open>\<^verbatim>\<open>Boolean(v)\<close> of a value that is a boolean or \<^verbatim>\<open>undefined\<close>.\<close>

fun Boolean :: "bool option \<Rightarrow> bool" where
  "Boolean None = False"
| "Boolean (Some b) = b"

text \<open>The values a render returns, lines 43-50 (the three functions follow below).\<close>

record DisclosureHookReturn =
  isOpen :: bool
  prevIsOpen :: bool
  isControlled :: bool

definition useDisclosure :: "disclosure \<Rightarrow> DisclosureHookReturn" where
  "useDisclosure d =
     (let (controlled, opn) =
            useControllableProp (isControlledRef d) (isOpenProp (props d)) (isOpenState d)
      in \<lparr>isOpen = Boolean opn,
          prevIsOpen = Boolean (previousRef d),
          isControlled = controlled\<rparr>)"

text \<open>
  Modelled from the spec: \<^verbatim>\<open>usePrevious\<close> (\<^verbatim>\<open>./usePrevious\<close>) is not among the sources.
  "\<^verbatim>\<open>prevIsOpen\<close> exposes the value of \<^verbatim>\<open>isOpen\<close> from immediately before the latest
  state transition". A transition is a change of the value the hook shows; \<open>remember\<close>
  is applied to the state before the change.
\<close>

definition remember :: "disclosure \<Rightarrow> disclosure \<Rightarrow> disclosure" where
  "remember before after =
     (if isOpen (useDisclosure after) = isOpen (useDisclosure before) then after
      else after\<lparr>previousRef := Some (isOpen (useDisclosure before))\<rparr>)"

text \<open>\<^verbatim>\<open>setIsOpen(v)\<close>: the state cell is written and the hook renders again.\<close>

definition setIsOpen :: "bool \<Rightarrow> disclosure \<Rightarrow> disclosure" where
  "setIsOpen v d = remember d (d\<lparr>isOpenState := v\<rparr>)"

text \<open>The owner renders the hook again with new props.\<close>

definition rerender :: "DisclosureHookProps \<Rightarrow> disclosure \<Rightarrow> disclosure" where
  "rerender p d = remember d (d\<lparr>props := p\<rparr>)"

definition invoke :: "callback \<Rightarrow> disclosure \<Rightarrow> disclosure" where
  "invoke c d = d\<lparr>calls := calls d @ [c]\<rparr>"

text \<open>Lines 20-27.\<close>

definition onClose :: "disclosure \<Rightarrow> disclosure" where
  "onClose d =
     (let d1 = (if \<not> isControlled (useDisclosure d) then setIsOpen False d else d)
      in if onCloseProp (props d) then invoke OnClose d1 else d1)"

text \<open>Lines 29-36.\<close>

definition onOpen :: "disclosure \<Rightarrow> disclosure" where
  "onOpen d =
     (let d1 = (if \<not> isControlled (useDisclosure d) then setIsOpen True d else d)
      in if onOpenProp (props d) then invoke OnOpen d1 else d1)"

text \<open>
  Lines 38-41. The test is on the value \<^verbatim>\<open>isOpen\<close> of line 16, before \<^verbatim>\<open>Boolean\<close> is
  applied to it.
\<close>

definition onToggle :: "disclosure \<Rightarrow> disclosure" where
  "onToggle d =
     (case snd (useControllableProp (isControlledRef d) (isOpenProp (props d)) (isOpenState d)) of
        Some True \<Rightarrow> onClose d
      | _ \<Rightarrow> onOpen d)"

text \<open>What the owner of the hook can do with it, and a sequence of such steps.\<close>

datatype operation = Open | Close | Toggle | Rerender DisclosureHookProps

fun perform :: "operation \<Rightarrow> disclosure \<Rightarrow> disclosure" where
  "perform Open d = onOpen d"
| "perform Close d = onClose d"
| "perform Toggle d = onToggle d"
| "perform (Rerender p) d = rerender p d"

definition perform_all :: "operation list \<Rightarrow> disclosure \<Rightarrow> disclosure" where
  "perform_all ops d = foldl (\<lambda>d x. perform x d) d ops"

section \<open>The tooltip's delayed show and hide\<close>

text \<open>
  \<^verbatim>\<open>packages/chakra-ui/src/Input/styles.ts\<close>, lines 226-453 (\<^verbatim>\<open>useTooltip\<close>). The props are
  those the timing reads, with the defaults of lines 291-293 applied by the caller
  (\<^verbatim>\<open>openDelay = 0\<close>, \<^verbatim>\<open>closeDelay = 0\<close>, \<^verbatim>\<open>closeOnClick = true\<close>); a delay is a whole
  number of milliseconds. \<open>disclosureProps\<close> are the four props passed on to
  \<^verbatim>\<open>useDisclosure\<close>, lines 311-316.
\<close>

record UseTooltipProps =
  openDelay :: nat
  closeDelay :: nat
  closeOnClick :: bool
  closeOnMouseDown :: bool
  isDisabled :: bool
  disclosureProps :: DisclosureHookProps

text \<open>
  The timers of the window. \<^verbatim>\<open>setTimeout\<close> returns a handle, a positive integer never
  given twice; the timer is due \<open>delay\<close> milliseconds after the call. \<^verbatim>\<open>clearTimeout\<close>
  removes the timer of a handle and does nothing for a handle that is not pending.
\<close>

datatype timer_callback = CallOnOpen | CallOnClose

record timer =
  handle :: nat
  due :: nat
  callback :: timer_callback

record tooltip =
  disclosure :: disclosure
  enterTimeout :: "nat option"
  exitTimeout :: "nat option"
  clock :: nat
  created :: nat
  pending :: "timer list"

definition setTimeout :: "timer_callback \<Rightarrow> nat \<Rightarrow> tooltip \<Rightarrow> nat \<times> tooltip" where
  "setTimeout f delay s =
     (let h = Suc (created s)
      in (h, s\<lparr>created := h,
               pending := pending s @ [\<lparr>handle = h, due = clock s + delay, callback = f\<rparr>]\<rparr>))"

definition clearTimeout :: "nat \<Rightarrow> tooltip \<Rightarrow> tooltip" where
  "clearTimeout h s = s\<lparr>pending := filter (\<lambda>t. handle t \<noteq> h) (pending s)\<rparr>"

definition mountTooltip :: "UseTooltipProps \<Rightarrow> tooltip" where
  "mountTooltip P =
     \<lparr>disclosure = mount (disclosureProps P),
      enterTimeout = None,
      exitTimeout = None,
      clock = 0,
      created = 0,
      pending = []\<rparr>"

text \<open>Lines 333-337.\<close>

definition openWithDelay :: "UseTooltipProps \<Rightarrow> tooltip \<Rightarrow> tooltip" where
  "openWithDelay P s =
     (if \<not> isDisabled P
      then (let (h, s1) = setTimeout CallOnOpen (openDelay P) s in s1\<lparr>enterTimeout := Some h\<rparr>)
      else s)"

text \<open>
  Lines 339-344. \<^verbatim>\<open>if (enterTimeout.current)\<close> is the truthiness of a number or
  \<^verbatim>\<open>undefined\<close>.
\<close>

definition closeWithDelay :: "UseTooltipProps \<Rightarrow> tooltip \<Rightarrow> tooltip" where
  "closeWithDelay P s =
     (let s1 = (case enterTimeout s of
                  None \<Rightarrow> s
                | Some h \<Rightarrow> if h \<noteq> 0 then clearTimeout h s else s);
          (h, s2) = setTimeout CallOnClose (closeDelay P) s1
      in s2\<lparr>exitTimeout := Some h\<rparr>)"

text \<open>Lines 346-350.\<close>

definition onClick :: "UseTooltipProps \<Rightarrow> tooltip \<Rightarrow> tooltip" where
  "onClick P s = (if closeOnClick P then closeWithDelay P s else s)"

text \<open>Lines 352-356.\<close>

definition onMouseDown :: "UseTooltipProps \<Rightarrow> tooltip \<Rightarrow> tooltip" where
  "onMouseDown P s = (if closeOnMouseDown P then closeWithDelay P s else s)"

text \<open>Lines 358-362.\<close>

definition onKeyDown :: "UseTooltipProps \<Rightarrow> string \<Rightarrow> tooltip \<Rightarrow> tooltip" where
  "onKeyDown P key s =
     (if isOpen (useDisclosure (disclosure s)) \<and> key = ''Escape'' then closeWithDelay P s
      else s)"

text \<open>A timer that is due runs its callback, \<^verbatim>\<open>onOpen\<close> or \<^verbatim>\<open>onClose\<close> of the disclosure.\<close>

definition fire :: "timer \<Rightarrow> tooltip \<Rightarrow> tooltip" where
  "fire t s =
     s\<lparr>disclosure :=
         (case callback t of CallOnOpen \<Rightarrow> onOpen | CallOnClose \<Rightarrow> onClose) (disclosure s)\<rparr>"

text \<open>
  Time passes: the timers due by then run in the order of their due times, those due
  together in the order they were set, and are no longer pending.
\<close>

definition elapse :: "nat \<Rightarrow> tooltip \<Rightarrow> tooltip" where
  "elapse d s =
     (let now = clock s + d;
          ready = filter (\<lambda>t. due t \<le> now) (pending s);
          s1 = s\<lparr>clock := now, pending := filter (\<lambda>t. \<not> due t \<le> now) (pending s)\<rparr>
      in foldl (\<lambda>s t. fire t s) s1 (sort_key due ready))"

text \<open>
  The events of the trigger element and of the clock, with the handlers that
  \<^verbatim>\<open>getTriggerProps\<close> (lines 382-406) and the two event listeners (lines 364 and 380)
  attach to them.
\<close>

datatype event = MouseEnter | Focus | MouseLeave | Blur | Click | MouseDown | KeyDown string
  | Elapse nat

fun dispatch :: "UseTooltipProps \<Rightarrow> event \<Rightarrow> tooltip \<Rightarrow> tooltip" where
  "dispatch P MouseEnter s = openWithDelay P s"
| "dispatch P Focus s = openWithDelay P s"
| "dispatch P MouseLeave s = closeWithDelay P s"
| "dispatch P Blur s = closeWithDelay P s"
| "dispatch P Click s = onClick P s"
| "dispatch P MouseDown s = onMouseDown P s"
| "dispatch P (KeyDown key) s = onKeyDown P key s"
| "dispatch P (Elapse d) s = elapse d s"

definition dispatch_all :: "UseTooltipProps \<Rightarrow> event list \<Rightarrow> tooltip \<Rightarrow> tooltip" where
  "dispatch_all P es s = foldl (\<lambda>s e. dispatch P e s) s es"

text \<open>The events that ask for the tooltip to open, and the time a list of events takes.\<close>

fun opens :: "event \<Rightarrow> bool" where
  "opens MouseEnter = True"
| "opens Focus = True"
| "opens e = False"

fun duration :: "event list \<Rightarrow> nat" where
  "duration [] = 0"
| "duration (Elapse d # es) = d + duration es"
| "duration (e # es) = duration es"

text \<open>
  What is observed of a tooltip: \<^verbatim>\<open>isOpen\<close> as \<^verbatim>\<open>useTooltip\<close> returns it (line 444), how
  often the \<^verbatim>\<open>onOpen\<close> and \<^verbatim>\<open>onClose\<close> props have been called, and whether a timer that
  will open, or close, is pending.
\<close>

definition tooltipIsOpen :: "tooltip \<Rightarrow> bool" where
  "tooltipIsOpen s = isOpen (useDisclosure (disclosure s))"

definition openCalls :: "tooltip \<Rightarrow> nat" where
  "openCalls s = length (filter (\<lambda>c. c = OnOpen) (calls (disclosure s)))"

definition closeCalls :: "tooltip \<Rightarrow> nat" where
  "closeCalls s = length (filter (\<lambda>c. c = OnClose) (calls (disclosure s)))"

definition openPending :: "tooltip \<Rightarrow> bool" where
  "openPending s = list_ex (\<lambda>t. callback t = CallOnOpen) (pending s)"

definition closePending :: "tooltip \<Rightarrow> bool" where
  "closePending s = list_ex (\<lambda>t. callback t = CallOnClose) (pending s)"

text \<open>
  Two relations used in the proofs about the timers. \<open>open_timers_held T s\<close>: every
  pending timer that will open is the one whose handle \<^verbatim>\<open>enterTimeout\<close> holds and is not
  due before \<open>T\<close>. \<open>no_more_open s s'\<close>: from \<open>s\<close> to \<open>s'\<close> the \<^verbatim>\<open>onOpen\<close> prop was not
  called, the tooltip did not come to be open, and no timer that will open was added.
\<close>

definition open_timers_held :: "nat \<Rightarrow> tooltip \<Rightarrow> bool" where
  "open_timers_held T s =
     (\<forall>t \<in> set (pending s). callback t = CallOnOpen \<longrightarrow>
        enterTimeout s = Some (handle t) \<and> handle t \<noteq> 0 \<and> T \<le> due t)"

definition no_more_open :: "tooltip \<Rightarrow> tooltip \<Rightarrow> bool" where
  "no_more_open s s' =
     (openCalls s' = openCalls s \<and> (tooltipIsOpen s' \<longrightarrow> tooltipIsOpen s)
      \<and> (\<forall>t \<in> set (pending s'). callback t = CallOnOpen \<longrightarrow> t \<in> set (pending s))
      \<and> enterTimeout s' = enterTimeout s)"

text \<open>
  The props of two runs: the example of the specification (\<^verbatim>\<open>openDelay = 300\<close>, with an
  \<^verbatim>\<open>onOpen\<close> callback), and a tooltip that starts open, opens after 100 ms and closes
  after 500 ms, with both callbacks.
\<close>

definition delay300 :: UseTooltipProps where
  "delay300 =
     \<lparr>openDelay = 300, closeDelay = 0, closeOnClick = True, closeOnMouseDown = False,
      isDisabled = False,
      disclosureProps = \<lparr>isOpenProp = None, defaultIsOpen = None, onCloseProp = False,
                          onOpenProp = True\<rparr>\<rparr>"

definition slowClose :: UseTooltipProps where
  "slowClose =
     \<lparr>openDelay = 100, closeDelay = 500, closeOnClick = True, closeOnMouseDown = False,
      isDisabled = False,
      disclosureProps = \<lparr>isOpenProp = None, defaultIsOpen = Some True, onCloseProp = True,
                          onOpenProp = True\<rparr>\<rparr>"

section \<open>Properties of the avatar's initials\<close>

lemma split_unfold:
  "split c s = takeWhile (\<lambda>x. x \<noteq> c) s #
     (case dropWhile (\<lambda>x. x \<noteq> c) s of [] \<Rightarrow> [] | _ # r \<Rightarrow> split c r)"
  by (induction s) (auto split: list.splits)

lemma at_index_split_0: "at_index (split c s) 0 = Some (takeWhile (\<lambda>x. x \<noteq> c) s)"
  by (subst split_unfold) simp

lemma at_index_split_1:
  "at_index (split c s) (Suc 0) =
     (case dropWhile (\<lambda>x. x \<noteq> c) s of [] \<Rightarrow> None
      | _ # r \<Rightarrow> Some (takeWhile (\<lambda>x. x \<noteq> c) r))"
proof (cases "dropWhile (\<lambda>x. x \<noteq> c) s")
  case Nil
  show ?thesis by (subst split_unfold) (simp add: Nil)
next
  case (Cons a r)
  show ?thesis by (subst split_unfold) (simp add: Cons at_index_split_0)
qed

lemma getInitials_examples:
  "getInitials ''Segun Adebayo Foo'' = Inr ''SA''"
  "getInitials ''Segun'' = Inr ''S''"
  "getInitials ''John  Doe'' = Inr ''J''"
  "getInitials '' Doe'' = Inr ''''"
  "getInitials '''' = Inr ''''"
  by (simp_all add: getInitials_def charAt_def)

text \<open>
  C10. \<^const>\<open>getInitials\<close> returns a string for every name, never the \<^verbatim>\<open>TypeError\<close>.
  When the text before the first space and the text between the first and the second
  space are both non-empty, the result is the first code unit of each, whatever follows.
  For every other name (no space, an empty name, an empty first or second word) it is the
  first code unit of the text before the first space, the empty string when that text is
  empty.
\<close>

theorem getInitials_total:
  "getInitials name =
     Inr (if first_word name \<noteq> [] \<and> second_word name \<noteq> []
          then [hd (first_word name), hd (second_word name)]
          else take 1 (first_word name))"
proof -
  let ?sp = "\<lambda>x. x \<noteq> CHR '' ''"
  have f: "at_index (split CHR '' '' name) 0 = Some (first_word name)"
    by (simp add: at_index_split_0 first_word_def)
  have l: "at_index (split CHR '' '' name) 1 =
      (case dropWhile ?sp name of [] \<Rightarrow> None | _ # r \<Rightarrow> Some (takeWhile ?sp r))"
    using at_index_split_1 [of "CHR '' ''" name] by simp
  have one: "\<And>w::string. w \<noteq> [] \<Longrightarrow> take 1 w = [hd w]"
    by (case_tac w) simp_all
  show ?thesis
  proof (cases "dropWhile ?sp name")
    case Nil
    have "second_word name = []" by (simp add: second_word_def Nil)
    with f l show ?thesis
      by (simp add: getInitials_def charAt_def Nil)
  next
    case (Cons a r)
    have s: "second_word name = takeWhile ?sp r" by (simp add: second_word_def Cons)
    with f l one show ?thesis
      by (simp add: getInitials_def charAt_def Cons)
  qed
qed

section \<open>Properties of the style resolvers\<close>

lemma walk_at_path:
  "at_path v ks = Some w \<Longrightarrow>
     foldl (\<lambda>obj k. if truthy obj then read H obj k else Undefined) v ks = w"
proof (induction ks arbitrary: v)
  case Nil
  then show ?case by simp
next
  case (Cons k ks)
  show ?case
  proof (cases v)
    case (Obj kvs)
    with Cons.prems obtain u where u: "map_of kvs k = Some u" and r: "at_path u ks = Some w"
      by (auto split: option.splits)
    from Cons.IH [OF r] u Obj show ?thesis by (simp add: member_def)
  qed (use Cons.prems in simp_all)
qed

text \<open>
  A token path that is present in a table, own property by own property, is looked up
  to the value the table holds, on every host.
\<close>

lemma get_present:
  assumes "token tbl path = Some v"
  shows "get H tbl path def = v"
proof -
  from assms have a: "at_path tbl (split CHR ''.'' path) = Some v" and u: "v \<noteq> Undefined"
    by (auto simp: token_def split: option.splits js.splits)
  from walk_at_path [OF a, of H] u show ?thesis
    by (simp add: get_def Let_def)
qed

lemma map_of_spread: "map_of (spread a b) = map_of a ++ map_of b"
proof
  fix k
  have m: "map_of (map (\<lambda>(k, v). (k, case map_of b k of None \<Rightarrow> v | Some w \<Rightarrow> w)) a) k =
      map_option (\<lambda>v. case map_of b k of None \<Rightarrow> v | Some w \<Rightarrow> w) (map_of a k)"
    by (induction a) (auto split: option.splits)
  have f: "map_of (filter (\<lambda>(k, v). map_of a k = None) b) k =
      (if map_of a k = None then map_of b k else None)"
    by (induction b) auto
  show "map_of (spread a b) k = (map_of a ++ map_of b) k"
    by (cases "map_of a k"; cases "map_of b k")
       (simp_all add: spread_def map_add_def m f)
qed

lemma plainObjects_unenumerable: "prototype_unenumerable plainObjects"
  by (simp add: prototype_unenumerable_def plainObjects_def objectPrototype_def
        native_function_def)

text \<open>Reads of a string, of own properties and of inherited members.\<close>

lemma read_examples:
  "read plainObjects (Str ''#fff'') ''length'' = Num ''4''"
  "read plainObjects (Str ''#fff'') ''1'' = Str ''f''"
  "read plainObjects (Str ''#fff'') ''4'' = Undefined"
  "read plainObjects (Obj palette) ''white'' = Str ''#fff''"
  "read plainObjects (Obj palette) ''toString'' = Native ''function toString() { [native code] }''"
  "read plainObjects (Obj palette) ''blue'' = Undefined"
  by (simp_all add: plainObjects_def palette_def member_def objectPrototype_def
        native_function_def upt_rec)

text \<open>
  C7, as the code runs. A token of the palette is looked up to its value and the raw
  value \<^verbatim>\<open>"#fff"\<close> comes back as it was given. The paths \<^verbatim>\<open>"constructor"\<close> and
  \<^verbatim>\<open>"white.length"\<close> are absent from the palette, and the lookup does not return them:
  the first gives the function \<^verbatim>\<open>Object\<close>, which every object inherits, the second the
  length 4 of the string \<^verbatim>\<open>"#fff"\<close>. The outline Input with these two colours has the
  function as the border colour of \<^verbatim>\<open>_focus\<close>, its source text in the box shadow, and 4
  as the border colour of \<^verbatim>\<open>_invalid\<close>.
\<close>

theorem token_lookup_inherited_member:
  "get plainObjects (Obj palette) ''gray.200'' (Str ''gray.200'') = Str ''#E2E8F0''
   \<and> get plainObjects (Obj palette) ''#fff'' (Str ''#fff'') = Str ''#fff''
   \<and> token (Obj palette) ''constructor'' = None
   \<and> get plainObjects (Obj palette) ''constructor'' (Str ''constructor'')
       = Native ''function Object() { [native code] }''
   \<and> token (Obj palette) ''white.length'' = None
   \<and> get plainObjects (Obj palette) ''white.length'' (Str ''white.length'') = Num ''4''
   \<and> read plainObjects (member plainObjects (outlinedStyle plainObjects constructorInput) ''_focus'')
         ''borderColor'' = Native ''function Object() { [native code] }''
   \<and> read plainObjects (member plainObjects (outlinedStyle plainObjects constructorInput) ''_focus'')
         ''boxShadow'' = Str ''0 0 0 1px function Object() { [native code] }''
   \<and> read plainObjects (member plainObjects (outlinedStyle plainObjects constructorInput) ''_invalid'')
         ''borderColor'' = Num ''4''"
  by (simp add: get_def token_def palette_def member_def plainObjects_def objectPrototype_def
        native_function_def outlinedStyle_def constructorInput_def bogusInput_def readOnly_def
        spread_def Let_def upt_rec)

lemma own_properties_examples:
  "own_properties (Str ''ab'') = [(''0'', Str ''a''), (''1'', Str ''b'')]"
  "own_properties Null = []"
  "own_properties (native_function ''Object'') = []"
  by (simp_all add: upt_rec native_function_def)

lemma spread_example:
  "spread [(''px'', Num ''4''), (''bg'', Str ''white'')] [(''rounded'', Num ''0''), (''px'', Undefined)]
     = [(''px'', Undefined), (''bg'', Str ''white''), (''rounded'', Num ''0'')]"
  by (simp add: spread_def)

lemma applied_append: "applied (a @ b) = applied a ++ applied b"
  by (rule ext) (simp add: applied_def map_add_def split: option.splits)

text \<open>
  C6 fails for the Input: with the variant \<^verbatim>\<open>"bogus"\<close> the fragment of \<^const>\<open>variantProps\<close>
  is empty, and nothing was written to the console, where the claim has exactly one
  diagnostic.
\<close>

theorem unknown_variant_counterexample:
  "snd (variantProps plainObjects bogusInput) = []
   \<and> length (fst (variantProps plainObjects bogusInput)) \<noteq> 1"
  by (simp add: variantProps_def bogusInput_def)

text \<open>
  C6, amended. For every variant key that the resolver does not know, the variant
  fragment is empty and the call returns normally. The Button's \<^const>\<open>variantStyle\<close>
  writes exactly one warning to the console, and that is all the styled Button writes;
  the Input's \<^const>\<open>variantProps\<close> writes none, and neither does \<^const>\<open>useInputStyle\<close>.
\<close>

theorem unknown_variant_empty_fragment:
  assumes "variant p \<notin> {''flushed'', ''unstyled'', ''filled'', ''outline''}"
    and "buttonVariant q \<notin> {''solid'', ''outline'', ''ghost'', ''link'', ''unstyled''}"
  shows "variantProps H p = ([], [])
       \<and> variantStyle H q = ([''passed variant prop is invalid ''], [])
       \<and> fst (useInputStyle H th m p) = []
       \<and> fst (StyledButton H q) = [''passed variant prop is invalid '']
       \<and> css (snd (variantStyle H q)) = []"
  using assms
  by (simp add: variantProps_def variantStyle_def useInputStyle_def StyledButton_def Let_def
        css_def split_beta)

text \<open>The variant \<^verbatim>\<open>"bogus"\<close>, for the Input and for the Button.\<close>

theorem unknown_variant_witness:
  "variant bogusInput \<notin> {''flushed'', ''unstyled'', ''filled'', ''outline''}
   \<and> buttonVariant bogusButton \<notin> {''solid'', ''outline'', ''ghost'', ''link'', ''unstyled''}
   \<and> variantProps plainObjects bogusInput = ([], [])
   \<and> variantStyle plainObjects bogusButton = ([''passed variant prop is invalid ''], [])"
proof -
  have 1: "variant bogusInput \<notin> {''flushed'', ''unstyled'', ''filled'', ''outline''}"
    by (simp add: bogusInput_def)
  have 2: "buttonVariant bogusButton \<notin> {''solid'', ''outline'', ''ghost'', ''link'', ''unstyled''}"
    by (simp add: bogusButton_def)
  from unknown_variant_empty_fragment [OF 1 2, of plainObjects] 1 2 show ?thesis by simp
qed

text \<open>
  C8 fails for the Input: for the size \<^verbatim>\<open>"xl"\<close>, and for no size at all, \<^const>\<open>sizeProps\<close>
  is not the entry of \<^verbatim>\<open>md\<close> (for \<^verbatim>\<open>"xl"\<close> it is \<^verbatim>\<open>undefined\<close>), and the resolved style
  has no \<^verbatim>\<open>fontSize\<close>, which every entry of the size table sets.
\<close>

theorem unknown_size_counterexample:
  "sizeProps plainObjects xlInput = Undefined
   \<and> map_of inputSizes ''md'' \<noteq> Some (sizeProps plainObjects xlInput)
   \<and> map_of (snd (useInputStyle plainObjects [] light xlInput)) ''fontSize'' = None
   \<and> map_of inputSizes ''md'' \<noteq> Some (sizeProps plainObjects (xlInput\<lparr>size := None\<rparr>))"
  by (simp add: sizeProps_def xlInput_def bogusInput_def member_def inputSizes_def
        plainObjects_def objectPrototype_def native_function_def
        useInputStyle_def variantProps_def outlinedStyle_def readOnly_def baseProps_def
        map_of_spread Let_def)

text \<open>
  C8, amended. For a size that is unset or is none of \<^verbatim>\<open>sm\<close>, \<^verbatim>\<open>md\<close>, \<^verbatim>\<open>lg\<close>, what the
  Input's \<^const>\<open>sizeProps\<close> returns is no entry of the size table (it is \<^verbatim>\<open>undefined\<close>, or
  a member that objects inherit, such as the function under \<^verbatim>\<open>"constructor"\<close>) and has
  no property to spread: the resolved style is the width, the base props and the variant
  fragment alone, and there is no fallback to \<^verbatim>\<open>md\<close>. For the size \<^verbatim>\<open>md\<close> it is the entry
  of \<^verbatim>\<open>md\<close> in the table. The host is any in which what an object inherits has no
  enumerable property of its own.
\<close>

theorem unknown_size_no_fragment:
  assumes "size p \<notin> {Some ''sm'', Some ''md'', Some ''lg''}"
    and "prototype_unenumerable H"
  shows "sizeProps H p \<notin> snd ` set inputSizes
       \<and> own_properties (sizeProps H p) = []
       \<and> map_of inputSizes ''md'' = Some (sizeProps H (p\<lparr>size := Some ''md''\<rparr>))
       \<and> snd (useInputStyle H th m p) =
           spread (spread [(''width'', if isFullWidth p then Str ''100%'' else Undefined)] baseProps)
             (snd (variantProps H (p\<lparr>theme := th, colorMode := m\<rparr>)))"
proof -
  let ?k = "case size p of None \<Rightarrow> ''undefined'' | Some s \<Rightarrow> s"
  have n: "map_of inputSizes ?k = None"
    using assms(1) by (cases "size p") (auto simp: inputSizes_def)
  then have s: "sizeProps H p = H (Obj inputSizes) ?k"
    by (simp add: sizeProps_def member_def)
  with assms(2) have u: "own_properties (sizeProps H p) = []"
    by (simp add: prototype_unenumerable_def)
  have "\<forall>v \<in> snd ` set inputSizes. own_properties v \<noteq> []"
    by (simp add: inputSizes_def)
  with u have e: "sizeProps H p \<notin> snd ` set inputSizes" by auto
  have v: "\<And>c. sizeProps H (p\<lparr>theme := th, colorMode := c\<rparr>) = sizeProps H p"
    by (simp add: sizeProps_def)
  have z: "\<And>a. spread a [] = a"
    by (simp add: spread_def)
  have md: "map_of inputSizes ''md'' = Some (sizeProps H (p\<lparr>size := Some ''md''\<rparr>))"
    by (simp add: sizeProps_def member_def inputSizes_def)
  have r: "snd (useInputStyle H th m p) =
           spread (spread [(''width'', if isFullWidth p then Str ''100%'' else Undefined)] baseProps)
             (snd (variantProps H (p\<lparr>theme := th, colorMode := m\<rparr>)))"
    by (simp add: u v z useInputStyle_def Let_def split_beta)
  from e u md r show ?thesis by blast
qed

text \<open>The sizes \<^verbatim>\<open>"xl"\<close> and \<^verbatim>\<open>"constructor"\<close>.\<close>

theorem unknown_size_witness:
  "size xlInput \<notin> {Some ''sm'', Some ''md'', Some ''lg''}
   \<and> prototype_unenumerable plainObjects
   \<and> own_properties (sizeProps plainObjects xlInput) = []
   \<and> own_properties (sizeProps plainObjects (xlInput\<lparr>size := Some ''constructor''\<rparr>)) = []"
proof -
  have 1: "size xlInput \<notin> {Some ''sm'', Some ''md'', Some ''lg''}"
    by (simp add: xlInput_def bogusInput_def)
  have 2: "size (xlInput\<lparr>size := Some ''constructor''\<rparr>) \<notin> {Some ''sm'', Some ''md'', Some ''lg''}"
    by simp
  from unknown_size_no_fragment [OF 1 plainObjects_unenumerable]
       unknown_size_no_fragment [OF 2 plainObjects_unenumerable]
       1 plainObjects_unenumerable
  show ?thesis by simp
qed

lemma processable_serialize: "processable (serialize v) = processable v"
  by (cases v) (simp_all add: processable_def)

lemma serialize_idem: "serialize (serialize v) = serialize v"
proof (induction v rule: serialize.induct)
  case (1 kvs)
  have "map (\<lambda>kv. (fst kv, serialize (snd kv)))
          (filter (\<lambda>kv. processable (snd kv))
             (map (\<lambda>kv. (fst kv, serialize (snd kv))) (filter (\<lambda>kv. processable (snd kv)) kvs)))
        = map (\<lambda>kv. (fst kv, serialize (snd kv))) (filter (\<lambda>kv. processable (snd kv)) kvs)"
    using 1 by (induction kvs) (auto simp: processable_serialize)
  then show ?case by simp
qed simp_all

lemma css_idem: "css (css obj) = css obj"
  using serialize_idem [of "Obj obj"] by (simp add: css_def)

lemma css_fragments:
  "css (focusStyle H q) = focusStyle H q" "css (sizeStyle H q) = sizeStyle H q"
  by (simp_all add: focusStyle_def sizeStyle_def css_idem)

text \<open>
  C9. The styled Button applies, for every property, the last declaration among the
  base, disabled, focus, size and variant fragments, in this order; the Input's resolved
  style is the width, the base props, the size entry and the variant fragment merged in
  this order, a later one overriding an earlier one. So a key that the variant fragment
  has carries the variant's value in the resolved style, whatever the size fragment
  gives it (for the Input also when the variant's value is \<^verbatim>\<open>undefined\<close>).
\<close>

theorem merge_order:
  "applied (snd (StyledButton H q)) =
     applied baseStyle ++ applied disabledStyle ++ applied (focusStyle H q)
       ++ applied (sizeStyle H q) ++ applied (css (snd (variantStyle H q)))
   \<and> map_of (snd (useInputStyle H th m p)) =
     map_of [(''width'', if isFullWidth p then Str ''100%'' else Undefined)] ++ map_of baseProps
       ++ map_of (own_properties (sizeProps H (p\<lparr>theme := th, colorMode := m\<rparr>)))
       ++ map_of (snd (variantProps H (p\<lparr>theme := th, colorMode := m\<rparr>)))
   \<and> (applied (css (snd (variantStyle H q))) k \<noteq> None \<longrightarrow>
        applied (snd (StyledButton H q)) k = applied (css (snd (variantStyle H q))) k)
   \<and> (map_of (snd (variantProps H (p\<lparr>theme := th, colorMode := m\<rparr>))) k \<noteq> None \<longrightarrow>
        map_of (snd (useInputStyle H th m p)) k
          = map_of (snd (variantProps H (p\<lparr>theme := th, colorMode := m\<rparr>))) k)"
proof -
  have b: "applied (snd (StyledButton H q)) =
     applied baseStyle ++ applied disabledStyle ++ applied (focusStyle H q)
       ++ applied (sizeStyle H q) ++ applied (css (snd (variantStyle H q)))"
    by (simp add: StyledButton_def Let_def split_beta applied_append css_fragments)
  have i: "map_of (snd (useInputStyle H th m p)) =
     map_of [(''width'', if isFullWidth p then Str ''100%'' else Undefined)] ++ map_of baseProps
       ++ map_of (own_properties (sizeProps H (p\<lparr>theme := th, colorMode := m\<rparr>)))
       ++ map_of (snd (variantProps H (p\<lparr>theme := th, colorMode := m\<rparr>)))"
    by (simp add: useInputStyle_def Let_def split_beta map_of_spread)
  show ?thesis
    unfolding b i by (auto simp: map_add_def split: option.splits)
qed

text \<open>
  The height of a link Button of size \<^verbatim>\<open>md\<close>, which the size and the variant both set,
  and the \<^verbatim>\<open>px\<close> of a flushed Input of size \<^verbatim>\<open>md\<close>.
\<close>

theorem merge_order_witness:
  "applied (css (snd (variantStyle plainObjects linkButton))) ''height'' \<noteq> None
   \<and> applied (sizeStyle plainObjects linkButton) ''height'' = Some (Str ''40px'')
   \<and> applied (snd (StyledButton plainObjects linkButton)) ''height'' = Some (Str ''auto'')
   \<and> map_of (snd (variantProps plainObjects (flushedInput\<lparr>theme := [], colorMode := light\<rparr>)))
        ''px'' \<noteq> None
   \<and> map_of (own_properties (sizeProps plainObjects flushedInput)) ''px'' = Some (Num ''4'')
   \<and> map_of (snd (useInputStyle plainObjects [] light flushedInput)) ''px'' = Some Undefined"
proof -
  have v: "applied (css (snd (variantStyle plainObjects linkButton))) ''height''
      = Some (Str ''auto'')"
    by (simp add: variantStyle_def linkButton_def bogusButton_def linkStyle_def css_def
          applied_def processable_def themeGet_def get_def buttonTheme_def member_def
          plainObjects_def objectPrototype_def native_function_def
          hoverSelector_def activeSelector_def)
  have s: "applied (sizeStyle plainObjects linkButton) ''height'' = Some (Str ''40px'')"
    by (simp add: sizeStyle_def linkButton_def bogusButton_def css_def spread_def
          applied_def processable_def themeGet_def get_def buttonTheme_def member_def)
  have w: "map_of (snd (variantProps plainObjects (flushedInput\<lparr>theme := [], colorMode := light\<rparr>)))
      ''px'' = Some Undefined"
    by (simp add: variantProps_def flushedInput_def bogusInput_def flushedStyle_def Let_def
          map_of_spread readOnly_def)
  have z: "map_of (own_properties (sizeProps plainObjects flushedInput)) ''px'' = Some (Num ''4'')"
    by (simp add: sizeProps_def flushedInput_def bogusInput_def inputSizes_def member_def)
  from merge_order [of plainObjects linkButton "[]" light flushedInput "''height''"] v
  have 1: "applied (snd (StyledButton plainObjects linkButton)) ''height'' = Some (Str ''auto'')"
    by simp
  from merge_order [of plainObjects linkButton "[]" light flushedInput "''px''"] w
  have 2: "map_of (snd (useInputStyle plainObjects [] light flushedInput)) ''px'' = Some Undefined"
    by simp
  from v s w z 1 2 show ?thesis by simp
qed

section \<open>Properties of the disclosure hook\<close>

lemma remember_fields [simp]:
  "isControlledRef (remember a b) = isControlledRef b"
  "isOpenState (remember a b) = isOpenState b"
  "props (remember a b) = props b"
  "calls (remember a b) = calls b"
  by (simp_all add: remember_def)

lemma invoke_fields [simp]:
  "isControlledRef (invoke c d) = isControlledRef d"
  "isOpenState (invoke c d) = isOpenState d"
  "props (invoke c d) = props d"
  "previousRef (invoke c d) = previousRef d"
  "calls (invoke c d) = calls d @ [c]"
  by (simp_all add: invoke_def)

lemma useDisclosure_fields:
  "isControlled (useDisclosure d) = isControlledRef d"
  "isOpen (useDisclosure d) =
     Boolean (if isControlledRef d then isOpenProp (props d) else Some (isOpenState d))"
  "prevIsOpen (useDisclosure d) = Boolean (previousRef d)"
  by (simp_all add: useDisclosure_def useControllableProp_def)

lemma perform_isControlledRef: "isControlledRef (perform x d) = isControlledRef d"
  by (cases x)
     (simp_all add: onOpen_def onClose_def onToggle_def rerender_def setIsOpen_def Let_def
        split: option.splits bool.splits)

lemma perform_state_controlled:
  "isControlledRef d \<Longrightarrow> isOpenState (perform x d) = isOpenState d"
  by (cases x)
     (simp_all add: onOpen_def onClose_def onToggle_def rerender_def useDisclosure_fields Let_def
        split: option.splits bool.splits)

lemma perform_all_isControlledRef:
  "isControlledRef (perform_all ops d) = isControlledRef d"
  unfolding perform_all_def
  by (induction ops arbitrary: d) (simp_all add: perform_isControlledRef)

lemma perform_all_state_controlled:
  "isControlledRef d \<Longrightarrow> isOpenState (perform_all ops d) = isOpenState d"
  unfolding perform_all_def
  by (induction ops arbitrary: d)
     (simp_all add: perform_isControlledRef perform_state_controlled)

lemma controlled_shown_unchanged:
  assumes "isControlledRef d"
  shows "isOpen (useDisclosure (onOpen d)) = isOpen (useDisclosure d)"
    and "isOpen (useDisclosure (onClose d)) = isOpen (useDisclosure d)"
    and "isOpen (useDisclosure (onToggle d)) = isOpen (useDisclosure d)"
  using assms
  by (simp_all add: onOpen_def onClose_def onToggle_def useDisclosure_fields
        useControllableProp_def split: option.splits bool.splits)

text \<open>
  C1. The flag \<^verbatim>\<open>isControlled\<close> that the hook returns is, after every sequence of
  \<^verbatim>\<open>onOpen\<close>, \<^verbatim>\<open>onClose\<close>, \<^verbatim>\<open>onToggle\<close> and renders with new props (props that leave
  \<^verbatim>\<open>isOpen\<close> undefined among them), the answer to one question asked at construction:
  was \<^verbatim>\<open>isOpen\<close> supplied then. A disclosure constructed with \<^verbatim>\<open>isOpen\<close> supplied never
  behaves as an uncontrolled one after any such sequence: its internal state is the one
  it was constructed with, and \<^verbatim>\<open>onOpen\<close>, \<^verbatim>\<open>onClose\<close> and \<^verbatim>\<open>onToggle\<close> leave the \<^verbatim>\<open>isOpen\<close>
  it shows as it is.
\<close>

theorem isControlled_fixed_at_construction:
  "isControlled (useDisclosure (perform_all ops (mount p))) = (isOpenProp p \<noteq> None)
   \<and> isOpenState (perform_all ops (mount (p\<lparr>isOpenProp := Some b\<rparr>)))
       = isOpenState (mount (p\<lparr>isOpenProp := Some b\<rparr>))
   \<and> isOpen (useDisclosure (onOpen (perform_all ops (mount (p\<lparr>isOpenProp := Some b\<rparr>)))))
       = isOpen (useDisclosure (perform_all ops (mount (p\<lparr>isOpenProp := Some b\<rparr>))))
   \<and> isOpen (useDisclosure (onClose (perform_all ops (mount (p\<lparr>isOpenProp := Some b\<rparr>)))))
       = isOpen (useDisclosure (perform_all ops (mount (p\<lparr>isOpenProp := Some b\<rparr>))))
   \<and> isOpen (useDisclosure (onToggle (perform_all ops (mount (p\<lparr>isOpenProp := Some b\<rparr>)))))
       = isOpen (useDisclosure (perform_all ops (mount (p\<lparr>isOpenProp := Some b\<rparr>))))"
proof -
  let ?d = "perform_all ops (mount (p\<lparr>isOpenProp := Some b\<rparr>))"
  have c: "isControlledRef (mount (p\<lparr>isOpenProp := Some b\<rparr>))"
    by (simp add: mount_def)
  then have d: "isControlledRef ?d"
    by (simp add: perform_all_isControlledRef)
  have "isControlled (useDisclosure (perform_all ops (mount p))) = (isOpenProp p \<noteq> None)"
    by (simp add: useDisclosure_fields perform_all_isControlledRef mount_def)
  moreover have "isOpenState ?d = isOpenState (mount (p\<lparr>isOpenProp := Some b\<rparr>))"
    using c by (rule perform_all_state_controlled)
  ultimately show ?thesis
    using controlled_shown_unchanged [OF d] by simp
qed

text \<open>
  C4. For the hook created with no props: \<^verbatim>\<open>isOpen\<close> is false at first; after
  \<^verbatim>\<open>onOpen\<close> it is true and \<^verbatim>\<open>prevIsOpen\<close> is false; after \<^verbatim>\<open>onClose\<close> following that,
  \<^verbatim>\<open>isOpen\<close> is false and \<^verbatim>\<open>prevIsOpen\<close> is true.
\<close>

theorem uncontrolled_open_close:
  "\<not> isOpen (useDisclosure (mount noProps))
   \<and> isOpen (useDisclosure (onOpen (mount noProps)))
   \<and> \<not> prevIsOpen (useDisclosure (onOpen (mount noProps)))
   \<and> \<not> isOpen (useDisclosure (onClose (onOpen (mount noProps))))
   \<and> prevIsOpen (useDisclosure (onClose (onOpen (mount noProps))))"
  by (simp add: noProps_def mount_def onOpen_def onClose_def setIsOpen_def remember_def
        invoke_def useDisclosure_def useControllableProp_def)

text \<open>
  C5. In a controlled disclosure \<^verbatim>\<open>onClose\<close> leaves the shown \<^verbatim>\<open>isOpen\<close> and the internal
  state as they are and calls the \<^verbatim>\<open>onClose\<close> prop exactly when one is supplied;
  \<^verbatim>\<open>onOpen\<close> does the same with the \<^verbatim>\<open>onOpen\<close> prop; \<^verbatim>\<open>onToggle\<close> is \<^verbatim>\<open>onClose\<close> when the
  disclosure shows open and \<^verbatim>\<open>onOpen\<close> otherwise.
\<close>

theorem controlled_frame:
  assumes "isControlled (useDisclosure d)"
  shows "isOpen (useDisclosure (onClose d)) = isOpen (useDisclosure d)
       \<and> isOpenState (onClose d) = isOpenState d
       \<and> calls (onClose d) = calls d @ (if onCloseProp (props d) then [OnClose] else [])
       \<and> isOpen (useDisclosure (onOpen d)) = isOpen (useDisclosure d)
       \<and> isOpenState (onOpen d) = isOpenState d
       \<and> calls (onOpen d) = calls d @ (if onOpenProp (props d) then [OnOpen] else [])
       \<and> onToggle d = (if isOpen (useDisclosure d) then onClose d else onOpen d)"
  using assms
  by (simp add: onOpen_def onClose_def onToggle_def useDisclosure_fields
        useControllableProp_def split: option.splits bool.splits)

text \<open>The disclosure constructed with \<^verbatim>\<open>isOpen: true\<close> and an \<^verbatim>\<open>onClose\<close> callback.\<close>

theorem controlled_frame_witness:
  "isControlled (useDisclosure (mount \<lparr>isOpenProp = Some True, defaultIsOpen = None,
       onCloseProp = True, onOpenProp = False\<rparr>))
   \<and> isOpen (useDisclosure (onClose (mount \<lparr>isOpenProp = Some True, defaultIsOpen = None,
       onCloseProp = True, onOpenProp = False\<rparr>)))
   \<and> calls (onClose (mount \<lparr>isOpenProp = Some True, defaultIsOpen = None,
       onCloseProp = True, onOpenProp = False\<rparr>)) = [OnClose]"
proof -
  let ?d = "mount \<lparr>isOpenProp = Some True, defaultIsOpen = None,
       onCloseProp = True, onOpenProp = False\<rparr>"
  have c: "isControlled (useDisclosure ?d)"
    by (simp add: mount_def useDisclosure_def useControllableProp_def)
  have o: "isOpen (useDisclosure ?d)"
    by (simp add: mount_def useDisclosure_def useControllableProp_def)
  from controlled_frame [OF c] o c show ?thesis
    by (simp add: mount_def)
qed

section \<open>Properties of the tooltip\<close>

lemma no_more_open_refl: "no_more_open s s"
  by (simp add: no_more_open_def)

lemma no_more_open_trans: "no_more_open a b \<Longrightarrow> no_more_open b c \<Longrightarrow> no_more_open a c"
  by (auto simp: no_more_open_def)

lemma onClose_observed:
  "length (filter (\<lambda>c. c = OnOpen) (calls (onClose d))) = length (filter (\<lambda>c. c = OnOpen) (calls d))"
  "isOpen (useDisclosure (onClose d)) \<Longrightarrow> isOpen (useDisclosure d)"
  by (auto simp: onClose_def setIsOpen_def invoke_def useDisclosure_fields Let_def split: if_splits)

lemma fire_close:
  assumes "callback t = CallOnClose"
  shows "openCalls (fire t s) = openCalls s"
    and "tooltipIsOpen (fire t s) \<Longrightarrow> tooltipIsOpen s"
    and "pending (fire t s) = pending s"
    and "enterTimeout (fire t s) = enterTimeout s"
    and "clock (fire t s) = clock s"
  using assms onClose_observed [of "disclosure s"]
  by (auto simp: fire_def openCalls_def tooltipIsOpen_def)

lemma fire_all_close:
  assumes "\<forall>t \<in> set ts. callback t = CallOnClose"
  shows "openCalls (foldl (\<lambda>s t. fire t s) s ts) = openCalls s
       \<and> (tooltipIsOpen (foldl (\<lambda>s t. fire t s) s ts) \<longrightarrow> tooltipIsOpen s)
       \<and> pending (foldl (\<lambda>s t. fire t s) s ts) = pending s
       \<and> enterTimeout (foldl (\<lambda>s t. fire t s) s ts) = enterTimeout s
       \<and> clock (foldl (\<lambda>s t. fire t s) s ts) = clock s"
  using assms
proof (induction ts arbitrary: s)
  case Nil
  then show ?case by simp
next
  case (Cons t ts)
  then have c: "callback t = CallOnClose" and r: "\<forall>t \<in> set ts. callback t = CallOnClose"
    by simp_all
  from Cons.IH [OF r, of "fire t s"] fire_close [OF c, of s]
  show ?case by auto
qed

lemma elapse_held:
  assumes "open_timers_held T s" and "clock s + d < T"
  shows "no_more_open s (elapse d s) \<and> open_timers_held T (elapse d s)
       \<and> clock (elapse d s) = clock s + d"
proof -
  let ?now = "clock s + d"
  let ?ready = "filter (\<lambda>t. due t \<le> ?now) (pending s)"
  let ?s1 = "s\<lparr>clock := ?now, pending := filter (\<lambda>t. \<not> due t \<le> ?now) (pending s)\<rparr>"
  have e: "elapse d s = foldl (\<lambda>s t. fire t s) ?s1 (sort_key due ?ready)"
    by (simp add: elapse_def Let_def)
  have "\<forall>t \<in> set (sort_key due ?ready). callback t = CallOnClose"
  proof
    fix t assume "t \<in> set (sort_key due ?ready)"
    then have m: "t \<in> set (pending s)" and "due t \<le> ?now" by auto
    with assms have "callback t \<noteq> CallOnOpen"
      by (auto simp: open_timers_held_def)
    then show "callback t = CallOnClose" by (cases "callback t") simp_all
  qed
  from fire_all_close [OF this, of ?s1] e
  have f: "openCalls (elapse d s) = openCalls ?s1"
    "tooltipIsOpen (elapse d s) \<longrightarrow> tooltipIsOpen ?s1"
    "pending (elapse d s) = pending ?s1"
    "enterTimeout (elapse d s) = enterTimeout ?s1"
    "clock (elapse d s) = clock ?s1"
    by simp_all
  have o: "openCalls ?s1 = openCalls s" "tooltipIsOpen ?s1 = tooltipIsOpen s"
    by (simp_all add: openCalls_def tooltipIsOpen_def)
  from f o assms(1) show ?thesis
    by (auto simp: no_more_open_def open_timers_held_def)
qed

lemma setTimeout_close_simps:
  "disclosure (snd (setTimeout f delay s)) = disclosure s"
  "clock (snd (setTimeout f delay s)) = clock s"
  "enterTimeout (snd (setTimeout f delay s)) = enterTimeout s"
  "pending (snd (setTimeout f delay s)) =
     pending s @ [\<lparr>handle = Suc (created s), due = clock s + delay, callback = f\<rparr>]"
  "fst (setTimeout f delay s) = Suc (created s)"
  by (simp_all add: setTimeout_def Let_def)

lemma closeWithDelay_held:
  assumes "open_timers_held T s"
  shows "no_more_open s (closeWithDelay P s) \<and> \<not> openPending (closeWithDelay P s)
       \<and> clock (closeWithDelay P s) = clock s"
proof -
  let ?s1 = "case enterTimeout s of None \<Rightarrow> s
                | Some h \<Rightarrow> if h \<noteq> 0 then clearTimeout h s else s"
  have c: "closeWithDelay P s = (snd (setTimeout CallOnClose (closeDelay P) ?s1))
       \<lparr>exitTimeout := Some (fst (setTimeout CallOnClose (closeDelay P) ?s1))\<rparr>"
    by (simp add: closeWithDelay_def Let_def split_beta)
  have n: "\<forall>t \<in> set (pending ?s1). callback t \<noteq> CallOnOpen"
    using assms
    by (auto simp: open_timers_held_def clearTimeout_def split: option.splits)
  have s1: "disclosure ?s1 = disclosure s" "clock ?s1 = clock s" "enterTimeout ?s1 = enterTimeout s"
    by (simp_all add: clearTimeout_def split: option.splits)
  have p: "set (pending (closeWithDelay P s)) =
      insert \<lparr>handle = Suc (created ?s1), due = clock ?s1 + closeDelay P, callback = CallOnClose\<rparr>
        (set (pending ?s1))"
    unfolding c by (simp add: setTimeout_close_simps)
  have d: "disclosure (closeWithDelay P s) = disclosure s" "clock (closeWithDelay P s) = clock s"
      "enterTimeout (closeWithDelay P s) = enterTimeout s"
    unfolding c by (simp_all add: setTimeout_close_simps s1)
  from n p have np: "\<forall>t \<in> set (pending (closeWithDelay P s)). callback t \<noteq> CallOnOpen"
    by auto
  then have "\<not> openPending (closeWithDelay P s)"
    by (auto simp: openPending_def list_ex_iff)
  with np d show ?thesis
    by (auto simp: no_more_open_def openCalls_def tooltipIsOpen_def)
qed

lemma not_openPending_held: "\<not> openPending s \<Longrightarrow> open_timers_held T s"
  by (auto simp: openPending_def list_ex_iff open_timers_held_def)

lemma no_more_open_pending:
  "no_more_open s s' \<Longrightarrow> \<not> openPending s \<Longrightarrow> \<not> openPending s'"
  by (auto simp: openPending_def list_ex_iff no_more_open_def)

lemma no_more_open_held:
  "no_more_open s s' \<Longrightarrow> open_timers_held T s \<Longrightarrow> open_timers_held T s'"
  by (auto simp: open_timers_held_def no_more_open_def)

lemma dispatch_held:
  assumes "\<not> opens e" and "open_timers_held T s" and "clock s + duration [e] < T"
  shows "no_more_open s (dispatch P e s) \<and> clock (dispatch P e s) = clock s + duration [e]"
proof (cases e)
  case (Elapse d)
  with assms elapse_held [of T s d] show ?thesis by simp
next
  case MouseEnter with assms show ?thesis by simp
next
  case Focus with assms show ?thesis by simp
next
  case MouseLeave with assms closeWithDelay_held [of T s P] show ?thesis by simp
next
  case Blur with assms closeWithDelay_held [of T s P] show ?thesis by simp
next
  case Click with assms closeWithDelay_held [of T s P] show ?thesis
    by (simp add: onClick_def no_more_open_refl)
next
  case MouseDown with assms closeWithDelay_held [of T s P] show ?thesis
    by (simp add: onMouseDown_def no_more_open_refl)
next
  case (KeyDown k) with assms closeWithDelay_held [of T s P] show ?thesis
    by (simp add: onKeyDown_def no_more_open_refl)
qed

lemma dispatch_all_held:
  assumes "list_all (\<lambda>e. \<not> opens e) es" and "open_timers_held T s"
    and "clock s + duration es < T"
  shows "no_more_open s (dispatch_all P es s)
       \<and> clock (dispatch_all P es s) = clock s + duration es"
  using assms
proof (induction es arbitrary: s)
  case Nil
  then show ?case by (simp add: dispatch_all_def no_more_open_refl)
next
  case (Cons e es)
  have d: "duration (e # es) = duration [e] + duration es"
    by (cases e) simp_all
  from Cons.prems have ne: "\<not> opens e" and nes: "list_all (\<lambda>e. \<not> opens e) es" by simp_all
  from Cons.prems d have b: "clock s + duration [e] < T" by simp
  from dispatch_held [OF ne Cons.prems(2) b, of P]
  have 1: "no_more_open s (dispatch P e s)" and 2: "clock (dispatch P e s) = clock s + duration [e]"
    by simp_all
  from 1 Cons.prems(2) have 3: "open_timers_held T (dispatch P e s)"
    by (rule no_more_open_held)
  from Cons.prems(3) d 2 have 4: "clock (dispatch P e s) + duration es < T" by simp
  from Cons.IH [OF nes 3 4] 1 2 d show ?case
    by (auto simp: dispatch_all_def intro: no_more_open_trans)
qed

lemma dispatch_all_idle:
  assumes "list_all (\<lambda>e. \<not> opens e) es" and "\<not> openPending s"
  shows "no_more_open s (dispatch_all P es s)"
  using dispatch_all_held [OF assms(1) not_openPending_held [OF assms(2)],
      of "Suc (clock s + duration es)" P]
  by simp

lemma openWithDelay_held:
  assumes "\<not> openPending s"
  shows "open_timers_held (clock s + openDelay P) (openWithDelay P s)
       \<and> openCalls (openWithDelay P s) = openCalls s
       \<and> tooltipIsOpen (openWithDelay P s) = tooltipIsOpen s
       \<and> clock (openWithDelay P s) = clock s"
  using assms
  by (auto simp: openWithDelay_def setTimeout_def Let_def open_timers_held_def openPending_def
        list_ex_iff openCalls_def tooltipIsOpen_def)

text \<open>
  What holds of a single open trigger. Let no timer that will open be pending. An open
  trigger (pointer-enter or focus) fires; events other than open triggers follow, taking
  less than \<^verbatim>\<open>openDelay\<close> milliseconds in all; then an event that calls
  \<^verbatim>\<open>closeWithDelay\<close> fires (pointer-leave and blur always do, a click, a pressed mouse
  button and the Escape key under the conditions of their handlers). At that moment no
  timer that will open is pending, and whatever follows that is not an open trigger,
  the \<^verbatim>\<open>onOpen\<close> prop is not called and the tooltip is not open unless it was open
  before the trigger.
\<close>

lemma single_open_cancelled_by_close:
  assumes "\<not> openPending s"
    and "opens e"
    and "list_all (\<lambda>e. \<not> opens e) between" and "duration between < openDelay P"
    and "dispatch P c (dispatch_all P between (dispatch P e s))
         = closeWithDelay P (dispatch_all P between (dispatch P e s))"
    and "list_all (\<lambda>e. \<not> opens e) after"
  shows "\<not> openPending (dispatch_all P (e # between @ [c]) s)
       \<and> openCalls (dispatch_all P (e # between @ [c] @ after) s) = openCalls s
       \<and> (tooltipIsOpen (dispatch_all P (e # between @ [c] @ after) s) \<longrightarrow> tooltipIsOpen s)"
proof -
  let ?T = "clock s + openDelay P"
  let ?s1 = "dispatch P e s"
  let ?s2 = "dispatch_all P between ?s1"
  let ?s3 = "dispatch P c ?s2"
  let ?s4 = "dispatch_all P after ?s3"
  from assms(2) have e: "?s1 = openWithDelay P s" by (cases e) simp_all
  from assms(5) have c: "?s3 = closeWithDelay P ?s2" .
  from openWithDelay_held [OF assms(1), of P] e
  have h1: "open_timers_held ?T ?s1" and o1: "openCalls ?s1 = openCalls s"
    and t1: "tooltipIsOpen ?s1 = tooltipIsOpen s" and c1: "clock ?s1 = clock s"
    by simp_all
  from assms(4) c1 have "clock ?s1 + duration between < ?T" by simp
  from dispatch_all_held [OF assms(3) h1 this, of P]
  have n2: "no_more_open ?s1 ?s2" by simp
  from n2 h1 have h2: "open_timers_held ?T ?s2" by (rule no_more_open_held)
  from closeWithDelay_held [OF h2, of P] c
  have n3: "no_more_open ?s2 ?s3" and p3: "\<not> openPending ?s3" by simp_all
  from dispatch_all_idle [OF assms(6) p3, of P]
  have n4: "no_more_open ?s3 ?s4" .
  have r3: "dispatch_all P (e # between @ [c]) s = ?s3"
    by (simp add: dispatch_all_def)
  have r4: "dispatch_all P (e # between @ [c] @ after) s = ?s4"
    by (simp add: dispatch_all_def)
  from n2 n3 n4 o1 t1 have "openCalls ?s4 = openCalls s"
    and "tooltipIsOpen ?s4 \<longrightarrow> tooltipIsOpen s"
    by (auto simp: no_more_open_def)
  with p3 r3 r4 show ?thesis by simp
qed

text \<open>
  The example of the specification: \<^verbatim>\<open>openDelay = 300\<close>, pointer-enter at 0 ms,
  pointer-leave at 100 ms, then a second passes.
\<close>

lemma single_open_example:
  "openCalls (dispatch_all delay300 [MouseEnter, Elapse 100, MouseLeave, Elapse 1000]
         (mountTooltip delay300)) = 0
   \<and> \<not> tooltipIsOpen (dispatch_all delay300 [MouseEnter, Elapse 100, MouseLeave, Elapse 1000]
         (mountTooltip delay300))"
proof -
  have 1: "\<not> openPending (mountTooltip delay300)"
    by (simp add: openPending_def mountTooltip_def)
  have 2: "duration [Elapse 100] < openDelay delay300"
    by (simp add: delay300_def)
  have 3: "openCalls (mountTooltip delay300) = 0" "\<not> tooltipIsOpen (mountTooltip delay300)"
    by (simp_all add: openCalls_def tooltipIsOpen_def mountTooltip_def mount_def delay300_def
          useDisclosure_def useControllableProp_def)
  from single_open_cancelled_by_close
         [of "mountTooltip delay300" MouseEnter "[Elapse 100]" delay300 MouseLeave "[Elapse 1000]"]
       1 2 3
  show ?thesis by simp
qed

text \<open>
  C2, as the code runs, with \<^verbatim>\<open>openDelay = 300\<close>. The pointer enters at 0 ms and the
  trigger takes the focus at 50 ms: two opens are scheduled, and \<^verbatim>\<open>enterTimeout\<close> holds
  the handle of the second. The pointer leaves at 100 ms, before either is due. The
  close clears the second timer only: an open is still pending after it, and when a
  second has passed the \<^verbatim>\<open>onOpen\<close> prop has been called and the tooltip is open. The
  same happens when a click, not the pointer leaving, is the close trigger.
\<close>

theorem earlier_open_survives_close:
  "openPending (dispatch_all delay300 [MouseEnter, Elapse 50, Focus, Elapse 50, MouseLeave]
       (mountTooltip delay300))
   \<and> openCalls (dispatch_all delay300
         [MouseEnter, Elapse 50, Focus, Elapse 50, MouseLeave, Elapse 1000]
         (mountTooltip delay300)) = 1
   \<and> tooltipIsOpen (dispatch_all delay300
         [MouseEnter, Elapse 50, Focus, Elapse 50, MouseLeave, Elapse 1000]
         (mountTooltip delay300))
   \<and> openCalls (dispatch_all delay300
         [MouseEnter, Elapse 50, Focus, Elapse 50, Click, Elapse 1000]
         (mountTooltip delay300)) = 1
   \<and> tooltipIsOpen (dispatch_all delay300
         [MouseEnter, Elapse 50, Focus, Elapse 50, Click, Elapse 1000]
         (mountTooltip delay300))"
  by (simp add: dispatch_all_def delay300_def mountTooltip_def mount_def closeWithDelay_def
     openWithDelay_def setTimeout_def clearTimeout_def elapse_def fire_def Let_def onClick_def
     openPending_def openCalls_def tooltipIsOpen_def onOpen_def onClose_def setIsOpen_def
     remember_def invoke_def useDisclosure_def useControllableProp_def)

text \<open>
  C3, as the code runs. The tooltip of \<^const>\<open>slowClose\<close> starts open. The pointer leaves
  at 0 ms, which schedules the close for 500 ms, and enters again at 100 ms. The close
  is still pending after the pointer has entered, and it fires: when a second has
  passed, \<^verbatim>\<open>onClose\<close> has been called and the tooltip is closed, with the pointer on the
  trigger.
\<close>

theorem open_trigger_keeps_pending_close:
  "closePending (dispatch_all slowClose [MouseLeave, Elapse 100, MouseEnter] (mountTooltip slowClose))
   \<and> closeCalls (dispatch_all slowClose [MouseLeave, Elapse 100, MouseEnter, Elapse 1000]
         (mountTooltip slowClose)) = 1
   \<and> \<not> tooltipIsOpen (dispatch_all slowClose [MouseLeave, Elapse 100, MouseEnter, Elapse 1000]
         (mountTooltip slowClose))"
  by (simp add: dispatch_all_def slowClose_def mountTooltip_def mount_def closeWithDelay_def
     openWithDelay_def setTimeout_def clearTimeout_def elapse_def fire_def Let_def
     closePending_def closeCalls_def tooltipIsOpen_def onOpen_def onClose_def setIsOpen_def
     remember_def invoke_def useDisclosure_def useControllableProp_def)

end
